theory Spec2Isabelle
  imports Main "HOL-Library.AList"
begin

section \<open>Values, errors and request data\<close>

text \<open>
  The server is written in JavaScript with Flow/TypeScript annotations. Values whose
  declared type is \<^verbatim>\<open>any\<close> (the values of a key bag, a \<^verbatim>\<open>where\<close> filter, a sort
  entry, the client identifier of the metadata) are JSON-like values. Values with a declared
  type follow it: an id, \<^verbatim>\<open>skip\<close> and \<^verbatim>\<open>limit\<close> are numbers, modelled as integers
  (fractions and NaN are outside the model); an optional field is an \<open>option\<close>, with
  \<open>None\<close> for \<^verbatim>\<open>undefined\<close>.
\<close>

datatype jsval =
    JUndefined
  | JNull
  | JBool bool
  | JNum int
  | JStr string
  | JArr "jsval list"
  | JObj "(string \<times> jsval) list"

text \<open>
  The members of \<^verbatim>\<open>Error.Code\<close> that the sources name (the spelling
  \<^verbatim>\<open>ForbdiddenOperation\<close> is the source's), and one constructor for the other members
  of the enumeration, which is declared in \<^verbatim>\<open>utils/error\<close>.
\<close>

datatype error_code =
    ForbdiddenOperation
  | InvalidCredentials
  | InvalidSessionToken
  | DatabaseError
  | OtherCode nat

text \<open>\<^verbatim>\<open>new Error(code, message)\<close>: what a controller throws.\<close>

datatype error = Error error_code string

text \<open>
  The error object as the response handler reads it: \<^verbatim>\<open>err.status\<close>, \<^verbatim>\<open>err.code\<close>
  (undefined for an error that is not the server's own) and \<^verbatim>\<open>err.message\<close>.
\<close>

record err_obj =
  status :: "int option"
  code :: "error_code option"
  message :: string

record metadata =
  isMaster :: bool
  client :: jsval

text \<open>An instance of the user class; the controllers read only its \<^verbatim>\<open>id\<close>.\<close>

record user =
  user_id :: int
  user_keys :: "(string \<times> jsval) list"

text \<open>The SDK object bound to a model with \<^verbatim>\<open>bindSDK\<close>; opaque to the server.\<close>

datatype sdk = SDK string

text \<open>
  A model class is obtained from \<^verbatim>\<open>api.models.get(className)\<close>, \<^verbatim>\<open>api.auth.user()\<close>
  or \<^verbatim>\<open>api.auth.session()\<close>.
\<close>

datatype class_ref = ModelClass string | UserClass | SessionClass

text \<open>
  A model instance is its class, the fields of the object handed to the constructor
  (\<^verbatim>\<open>{ metadata, currentUser, keys, id }\<close>, each constructor call passing a subset) and
  the SDK bound to it. The constructor stores its argument; whatever validation the model
  classes perform is part of \<open>save\<close> and \<open>destroy\<close> below, which may fail with any error
  before they write.
\<close>

record model =
  m_class :: class_ref
  m_metadata :: metadata
  m_currentUser :: "user option"
  m_keys :: "(string \<times> jsval) list option"
  m_id :: "int option"
  m_sdk :: "sdk option"

definition bindSDK :: "sdk option \<Rightarrow> model \<Rightarrow> model" where
  "bindSDK W m = m\<lparr>m_sdk := W\<rparr>"

type_synonym constraint_map = "(string \<times> (string \<times> jsval) list) list"

text \<open>The query objects built by \<^verbatim>\<open>find\<close> and by \<^verbatim>\<open>get\<close>.\<close>

record find_query =
  q_select :: "string list option"
  q_include :: "string list option"
  q_where :: constraint_map
  q_sort :: "jsval list"
  q_skip :: int
  q_limit :: int

record get_query =
  g_select :: "string list"
  g_include :: "string list"
  g_id :: int

record credentials =
  username :: "string option"
  email :: "string option"
  password :: string

section \<open>JavaScript operators\<close>

text \<open>
  \<^verbatim>\<open>x || d\<close> yields \<^verbatim>\<open>d\<close> when \<^verbatim>\<open>x\<close> is falsy. An array is truthy, also when empty, so
  for an optional array only \<^verbatim>\<open>undefined\<close> takes the default; a number is falsy when it
  is \<^verbatim>\<open>0\<close>, so for an optional number both \<^verbatim>\<open>undefined\<close> and \<^verbatim>\<open>0\<close> take it.
\<close>

definition or_array :: "'a list option \<Rightarrow> 'a list \<Rightarrow> 'a list" where
  "or_array x d = (case x of None \<Rightarrow> d | Some v \<Rightarrow> v)"

definition or_number :: "int option \<Rightarrow> int \<Rightarrow> int" where
  "or_number x d = (case x of None \<Rightarrow> d | Some n \<Rightarrow> if n = 0 then d else n)"

text \<open>
  The decimal text of an integer: digits, most significant first, after a minus sign for a
  negative one. It is the text JavaScript gives for a number that is a safe integer (at
  most \<^verbatim>\<open>Number.MAX_SAFE_INTEGER\<close> in absolute value).
\<close>

definition digit_char :: "nat \<Rightarrow> char" where
  "digit_char n = ''0123456789'' ! n"

fun nat_toString :: "nat \<Rightarrow> string" where
  "nat_toString n =
     (if n < 10 then [digit_char n] else nat_toString (n div 10) @ [digit_char (n mod 10)])"

definition int_toString :: "int \<Rightarrow> string" where
  "int_toString i =
     (if i < 0 then CHR ''-'' # nat_toString (nat (- i)) else nat_toString (nat i))"

text \<open>Reading a decimal text back: the number that a text of digits names.\<close>

definition digit_value :: "char \<Rightarrow> nat" where
  "digit_value c = of_char c - 48"

definition decimal_value :: "string \<Rightarrow> nat" where
  "decimal_value cs = foldl (\<lambda>a c. 10 * a + digit_value c) 0 cs"

definition int_of_decimal :: "string \<Rightarrow> int" where
  "int_of_decimal cs =
     (case cs of
        [] \<Rightarrow> 0
      | c # r \<Rightarrow> if c = CHR ''-'' then - int (decimal_value r) else int (decimal_value cs))"

definition MAX_SAFE_INTEGER :: int where
  "MAX_SAFE_INTEGER = 9007199254740991"

section \<open>The response handler\<close>

text \<open>
  \<^verbatim>\<open>Response.error\<close> either hands the error to the next handler (\<^verbatim>\<open>next(err)\<close>, when
  the server is configured with a custom response) or sets the status and writes the JSON
  body \<^verbatim>\<open>{ code, message }\<close>. The \<^verbatim>\<open>code\<close> of the body is \<^verbatim>\<open>err.code\<close> or the number
  \<^verbatim>\<open>400\<close>.
\<close>

datatype body_code = CodeOf error_code | CodeNumber int

record error_body =
  b_code :: body_code
  b_message :: string

datatype outcome = Next err_obj | Sent int error_body

definition Response_error :: "bool \<Rightarrow> err_obj \<Rightarrow> outcome" where
  "Response_error customResponse err =
     (if customResponse then Next err
      else
        let status0 = status err;
            code0 = code err;
            message0 = message err;
            (code1, message1) =
              (case code0 of
                 None \<Rightarrow> (CodeNumber 400, message0)
               | Some c \<Rightarrow>
                   if c = DatabaseError then (CodeOf c, ''Invalid query request'')
                   else (CodeOf c, message0))
        in Sent (or_number status0 400) \<lparr>b_code = code1, b_message = message1\<rparr>)"

section \<open>Collaborators and the trace of a request\<close>

text \<open>
  The controllers reach the storage and the rest of the server through objects whose code
  is outside the files verified here: the API object (\<^verbatim>\<open>models.get\<close>,
  \<^verbatim>\<open>parseSubqueries\<close>, \<^verbatim>\<open>authenticate\<close>, \<^verbatim>\<open>createSessionToken\<close>,
  \<^verbatim>\<open>getRevocationDate\<close>), the \<^verbatim>\<open>ConstraintMap\<close> constructor, the constants
  \<^verbatim>\<open>Defaults.Query\<close>, the key names of the session class and the methods of the model
  classes. They are the fields of an environment, over an arbitrary type \<open>'w\<close> of external
  state (database, clock, randomness). A call that the source awaits, or that reads the
  clock or draws randomness, takes the external state and returns the new one; a call that
  can throw returns a sum. The getters \<^verbatim>\<open>auth.user()\<close> and \<^verbatim>\<open>auth.session()\<close>, the
  token generator, the revocation date and \<^verbatim>\<open>toPointer().toJSON()\<close> are taken to return.
\<close>

record 'w env =
  models_get :: "string \<Rightarrow> error + class_ref"
  parseSubqueries :: "jsval option \<Rightarrow> error + jsval option"
  new_ConstraintMap :: "jsval option \<Rightarrow> error + constraint_map"
  Defaults_Query_Sort :: "jsval list"
  Defaults_Query_Skip :: int
  Defaults_Query_Limit :: int
  authenticate :: "credentials \<Rightarrow> 'w \<Rightarrow> (error + user option) \<times> 'w"
  createSessionToken :: "user \<Rightarrow> 'w \<Rightarrow> jsval \<times> 'w"
  getRevocationDate :: "'w \<Rightarrow> jsval"
  toPointerJSON :: "user \<Rightarrow> jsval"
  userKey :: string
  originKey :: string
  sessionTokenKey :: string
  revokedAtKey :: string
  getFromToken :: "string \<Rightarrow> 'w \<Rightarrow> (error + model option) \<times> 'w"
  model_find :: "class_ref \<Rightarrow> find_query \<Rightarrow> 'w \<Rightarrow> (error + model list) \<times> 'w"
  model_getById :: "class_ref \<Rightarrow> get_query \<Rightarrow> 'w \<Rightarrow> (error + model option) \<times> 'w"
  model_first :: "class_ref \<Rightarrow> get_query \<Rightarrow> 'w \<Rightarrow> (error + model option) \<times> 'w"
  model_save :: "model \<Rightarrow> 'w \<Rightarrow> (error + model) \<times> 'w"
  model_destroy :: "model \<Rightarrow> 'w \<Rightarrow> (error + model) \<times> 'w"
  unsafe_number_text :: "int \<Rightarrow> string"

text \<open>
  A template literal \<^verbatim>\<open>${n}\<close> over a number gives the decimal text of a safe integer.
  Beyond the safe integers a JavaScript number is a rounded floating-point value and its
  text has rounded digits, and exponent form from \<^verbatim>\<open>1e21\<close>; that formatting is not
  modelled, and the text is whatever the field \<open>unsafe_number_text\<close> of the environment
  says.
\<close>

definition template_number :: "'w env \<Rightarrow> int \<Rightarrow> string" where
  "template_number api n =
     (if \<bar>n\<bar> \<le> MAX_SAFE_INTEGER then int_toString n else unsafe_number_text api n)"

text \<open>
  The trace of a request lists, in program order, the calls it makes on the external state
  and the checks of the caller it evaluates: \<open>Checked b\<close> stands for a statement
  \<^verbatim>\<open>if (<condition on metadata.isMaster or currentUser>) throw ...\<close> in front of a write,
  with \<open>b\<close> true when the statement lets the caller through.
\<close>

datatype event =
    Checked bool
  | Authenticate credentials
  | CreateSessionToken user
  | GetRevocationDate
  | GetFromToken string
  | Find class_ref find_query
  | GetById class_ref get_query
  | First class_ref get_query
  | Save model
  | Destroy model

record 'w world =
  db :: 'w
  trace :: "event list"

definition emit :: "event \<Rightarrow> 'w world \<Rightarrow> 'w world" where
  "emit e s = s\<lparr>trace := trace s @ [e]\<rparr>"

definition call :: "event \<Rightarrow> ('w \<Rightarrow> 'a \<times> 'w) \<Rightarrow> 'w world \<Rightarrow> 'a \<times> 'w world" where
  "call e f s = (case f (db s) of (r, w') \<Rightarrow> (r, \<lparr>db = w', trace = trace s @ [e]\<rparr>))"

text \<open>A write is a \<open>save\<close> or a \<open>destroy\<close> issued to a model.\<close>

fun is_write :: "event \<Rightarrow> bool" where
  "is_write (Save m) = True"
| "is_write (Destroy m) = True"
| "is_write e = False"

text \<open>
  \<open>guarded allowed es\<close>: every write of \<open>es\<close> comes after a check of the caller that let
  the caller through, and no write comes after a check that denied; \<open>allowed\<close> tells
  whether such a check has passed already.
\<close>

fun guarded :: "bool \<Rightarrow> event list \<Rightarrow> bool" where
  "guarded allowed [] = True"
| "guarded allowed (Checked b # es) = guarded b es"
| "guarded allowed (e # es) = ((is_write e \<longrightarrow> allowed) \<and> guarded allowed es)"

section \<open>The class routes (routes/classes.js)\<close>

definition classes_find ::
  "'w env \<Rightarrow> string \<Rightarrow> string list option \<Rightarrow> string list option \<Rightarrow> jsval option \<Rightarrow>
   jsval list option \<Rightarrow> int option \<Rightarrow> int option \<Rightarrow> 'w world \<Rightarrow> (error + model list) \<times> 'w world" where
  "classes_find api className select include where' sort' skip limit s =
     (case parseSubqueries api where' of
        Inl e \<Rightarrow> (Inl e, s)
      | Inr where'' \<Rightarrow>
          (case new_ConstraintMap api where'' of
             Inl e \<Rightarrow> (Inl e, s)
           | Inr cm \<Rightarrow>
               let query = \<lparr>q_select = select, q_include = include, q_where = cm,
                             q_sort = or_array sort' (Defaults_Query_Sort api),
                             q_skip = or_number skip (Defaults_Query_Skip api),
                             q_limit = or_number limit (Defaults_Query_Limit api)\<rparr>
               in (case models_get api className of
                     Inl e \<Rightarrow> (Inl e, s)
                   | Inr modelClass \<Rightarrow>
                       call (Find modelClass query) (model_find api modelClass query) s)))"

definition classes_first ::
  "'w env \<Rightarrow> string \<Rightarrow> int \<Rightarrow> string list option \<Rightarrow> string list option \<Rightarrow>
   'w world \<Rightarrow> (error + model option) \<times> 'w world" where
  "classes_first api className id' select include s =
     (let query = \<lparr>g_select = or_array select [], g_include = or_array include [], g_id = id'\<rparr>
      in (case models_get api className of
            Inl e \<Rightarrow> (Inl e, s)
          | Inr modelClass \<Rightarrow>
              call (First modelClass query) (model_first api modelClass query) s))"

definition classes_create ::
  "'w env \<Rightarrow> metadata \<Rightarrow> user option \<Rightarrow> string \<Rightarrow> (string \<times> jsval) list \<Rightarrow>
   'w world \<Rightarrow> (error + model) \<times> 'w world" where
  "classes_create api metadata currentUser className keys s =
     (case models_get api className of
        Inl e \<Rightarrow> (Inl e, s)
      | Inr modelClass \<Rightarrow>
          let model = \<lparr>m_class = modelClass, m_metadata = metadata,
                        m_currentUser = currentUser, m_keys = Some keys, m_id = None,
                        m_sdk = None\<rparr>
          in call (Save model) (model_save api model) s)"

definition classes_update ::
  "'w env \<Rightarrow> metadata \<Rightarrow> user option \<Rightarrow> string \<Rightarrow> (string \<times> jsval) list \<Rightarrow> int \<Rightarrow>
   'w world \<Rightarrow> (error + model) \<times> 'w world" where
  "classes_update api metadata currentUser className keys id' s =
     (case models_get api className of
        Inl e \<Rightarrow> (Inl e, s)
      | Inr modelClass \<Rightarrow>
          let model = \<lparr>m_class = modelClass, m_metadata = metadata,
                        m_currentUser = currentUser, m_keys = Some keys, m_id = Some id',
                        m_sdk = None\<rparr>
          in call (Save model) (model_save api model) s)"

definition classes_destroy ::
  "'w env \<Rightarrow> metadata \<Rightarrow> user option \<Rightarrow> string \<Rightarrow> int \<Rightarrow>
   'w world \<Rightarrow> (error + model) \<times> 'w world" where
  "classes_destroy api metadata currentUser className id' s =
     (case models_get api className of
        Inl e \<Rightarrow> (Inl e, s)
      | Inr modelClass \<Rightarrow>
          let model = \<lparr>m_class = modelClass, m_metadata = metadata,
                        m_currentUser = currentUser, m_keys = None, m_id = Some id',
                        m_sdk = None\<rparr>
          in call (Destroy model) (model_destroy api model) s)"

section \<open>The user controller (controllers/user)\<close>

text \<open>
  \<^verbatim>\<open>this._api.auth.user()\<close> and \<^verbatim>\<open>this._api.auth.session()\<close> return the configured
  user and session classes. \<^verbatim>\<open>user instanceof this._api.auth.user()\<close> holds for a
  \<open>Some\<close> result of \<open>authenticate\<close> and fails for \<open>None\<close>, which stands for every value
  that is not a user instance.
\<close>

definition UserController_find ::
  "'w env \<Rightarrow> string list option \<Rightarrow> string list option \<Rightarrow> jsval option \<Rightarrow>
   jsval list option \<Rightarrow> int option \<Rightarrow> int option \<Rightarrow> 'w world \<Rightarrow> (error + model list) \<times> 'w world" where
  "UserController_find api select include where' sort' skip limit s =
     (case parseSubqueries api where' of
        Inl e \<Rightarrow> (Inl e, s)
      | Inr where'' \<Rightarrow>
          (case new_ConstraintMap api where'' of
             Inl e \<Rightarrow> (Inl e, s)
           | Inr cm \<Rightarrow>
               let query = \<lparr>q_select = select, q_include = include, q_where = cm,
                             q_sort = or_array sort' (Defaults_Query_Sort api),
                             q_skip = or_number skip (Defaults_Query_Skip api),
                             q_limit = or_number limit (Defaults_Query_Limit api)\<rparr>;
                   modelClass = UserClass
               in call (Find modelClass query) (model_find api modelClass query) s))"

definition UserController_get ::
  "'w env \<Rightarrow> int \<Rightarrow> string list option \<Rightarrow> string list option \<Rightarrow>
   'w world \<Rightarrow> (error + model) \<times> 'w world" where
  "UserController_get api id' select include s =
     (let query = \<lparr>g_select = or_array select [], g_include = or_array include [], g_id = id'\<rparr>;
          modelClass = UserClass
      in (case call (GetById modelClass query) (model_getById api modelClass query) s of
            (Inl e, s1) \<Rightarrow> (Inl e, s1)
          | (Inr None, s1) \<Rightarrow>
              (Inl (Error ForbdiddenOperation
                     (''User with id `'' @ template_number api id' @ ''` not found'')), s1)
          | (Inr (Some model), s1) \<Rightarrow> (Inr model, s1)))"

definition UserController_create ::
  "'w env \<Rightarrow> sdk option \<Rightarrow> metadata \<Rightarrow> user option \<Rightarrow> (string \<times> jsval) list \<Rightarrow>
   'w world \<Rightarrow> (error + model) \<times> 'w world" where
  "UserController_create api Warp metadata currentUser keys s =
     (if currentUser \<noteq> None then
        (Inl (Error ForbdiddenOperation
               ''Users cannot be created using an active session. Please log out.''),
         emit (Checked False) s)
      else
        let s1 = emit (Checked True) s;
            modelClass = UserClass;
            model = \<lparr>m_class = modelClass, m_metadata = metadata,
                     m_currentUser = currentUser, m_keys = Some keys, m_id = None,
                     m_sdk = None\<rparr>;
            model = bindSDK Warp model
        in call (Save model) (model_save api model) s1)"

definition UserController_update ::
  "'w env \<Rightarrow> sdk option \<Rightarrow> metadata \<Rightarrow> user option \<Rightarrow> (string \<times> jsval) list \<Rightarrow> int \<Rightarrow>
   'w world \<Rightarrow> (error + model) \<times> 'w world" where
  "UserController_update api Warp metadata currentUser keys id' s =
     (if \<not> isMaster metadata \<and>
         (case currentUser of None \<Rightarrow> True | Some u \<Rightarrow> user_id u \<noteq> id') then
        (Inl (Error ForbdiddenOperation
               ''User details can only be edited by their owner or via master''),
         emit (Checked False) s)
      else
        let s1 = emit (Checked True) s;
            modelClass = UserClass;
            model = \<lparr>m_class = modelClass, m_metadata = metadata,
                     m_currentUser = currentUser, m_keys = Some keys, m_id = Some id',
                     m_sdk = None\<rparr>;
            model = bindSDK Warp model
        in call (Save model) (model_save api model) s1)"

definition UserController_destroy ::
  "'w env \<Rightarrow> sdk option \<Rightarrow> metadata \<Rightarrow> user option \<Rightarrow> int \<Rightarrow>
   'w world \<Rightarrow> (error + model) \<times> 'w world" where
  "UserController_destroy api Warp metadata currentUser id' s =
     (if \<not> isMaster metadata \<and>
         (case currentUser of None \<Rightarrow> True | Some u \<Rightarrow> user_id u \<noteq> id') then
        (Inl (Error ForbdiddenOperation
               ''User details can only be destroyed by their owner or via master''),
         emit (Checked False) s)
      else
        let s1 = emit (Checked True) s;
            modelClass = UserClass;
            model = \<lparr>m_class = modelClass, m_metadata = metadata,
                     m_currentUser = currentUser, m_keys = None, m_id = Some id',
                     m_sdk = None\<rparr>;
            model = bindSDK Warp model
        in call (Destroy model) (model_destroy api model) s1)"

text \<open>
  The keys of the session are an object literal with four computed keys, evaluated in
  order; a computed key that repeats an earlier one overwrites its value
  (\<open>AList.update\<close>).
\<close>

definition UserController_logIn ::
  "'w env \<Rightarrow> sdk option \<Rightarrow> metadata \<Rightarrow> user option \<Rightarrow> string option \<Rightarrow> string option \<Rightarrow>
   string \<Rightarrow> 'w world \<Rightarrow> (error + model) \<times> 'w world" where
  "UserController_logIn api Warp metadata currentUser username' email' password' s =
     (let sessionClass = SessionClass in
      if currentUser \<noteq> None then
        (Inl (Error ForbdiddenOperation
               ''Cannot log in using an active session. Please log out.''),
         emit (Checked False) s)
      else
        let s1 = emit (Checked True) s;
            creds = \<lparr>username = username', email = email', password = password'\<rparr>
        in (case call (Authenticate creds) (authenticate api creds) s1 of
              (Inl e, s2) \<Rightarrow> (Inl e, s2)
            | (Inr None, s2) \<Rightarrow>
                (Inl (Error InvalidCredentials ''Invalid username/password''), s2)
            | (Inr (Some user), s2) \<Rightarrow>
                let pointer = toPointerJSON api user;
                    origin = client metadata;
                    (token, s3) =
                      call (CreateSessionToken user) (createSessionToken api user) s2;
                    (revokedAt, s4) =
                      call GetRevocationDate (\<lambda>w. (getRevocationDate api w, w)) s3;
                    keys =
                      AList.update (revokedAtKey api) revokedAt
                        (AList.update (sessionTokenKey api) token
                          (AList.update (originKey api) origin
                            (AList.update (userKey api) pointer [])));
                    session = \<lparr>m_class = sessionClass, m_metadata = metadata,
                               m_currentUser = None, m_keys = Some keys, m_id = None,
                               m_sdk = None\<rparr>;
                    session = bindSDK Warp session
                in call (Save session) (model_save api session) s4))"

definition UserController_me :: "user option \<Rightarrow> error + user" where
  "UserController_me currentUser =
     (case currentUser of
        None \<Rightarrow> Inl (Error InvalidSessionToken ''Session does not exist'')
      | Some u \<Rightarrow> Inr u)"

definition UserController_logOut ::
  "'w env \<Rightarrow> sdk option \<Rightarrow> string \<Rightarrow> 'w world \<Rightarrow> (error + model) \<times> 'w world" where
  "UserController_logOut api Warp sessionToken s =
     (case call (GetFromToken sessionToken) (getFromToken api sessionToken) s of
        (Inl e, s1) \<Rightarrow> (Inl e, s1)
      | (Inr None, s1) \<Rightarrow> (Inl (Error InvalidSessionToken ''Session does not exist''), s1)
      | (Inr (Some session), s1) \<Rightarrow>
          let session = bindSDK Warp session
          in call (Destroy session) (model_destroy api session) s1)"

section \<open>An in-memory environment\<close>

text \<open>
  One instance of the environment, on which the controllers run on concrete requests: the
  external state holds the accounts, the persisted model instances, the next free id, the
  clock and a counter for tokens.
\<close>

record mem =
  accounts :: "(credentials \<times> user) list"
  rows :: "model list"
  next_id :: int
  now :: int
  issued :: nat

definition key_of :: "string \<Rightarrow> model \<Rightarrow> jsval option" where
  "key_of k m = (case m_keys m of None \<Rightarrow> None | Some ks \<Rightarrow> map_of ks k)"

definition same_row :: "model \<Rightarrow> model \<Rightarrow> bool" where
  "same_row m r = (m_class r = m_class m \<and> m_id r = m_id m)"

text \<open>
  Modelled from the spec: \<^verbatim>\<open>authenticate\<close> is a method of the API object, which is not
  among the sources. It "looks up exactly one Identity whose username or email matches";
  zero or several matches, or a password that does not match, give no user.
\<close>

definition matches :: "credentials \<Rightarrow> credentials \<times> user \<Rightarrow> bool" where
  "matches c a =
     ((username c \<noteq> None \<and> username (fst a) = username c) \<or>
      (email c \<noteq> None \<and> email (fst a) = email c))"

definition mem_authenticate :: "credentials \<Rightarrow> mem \<Rightarrow> (error + user option) \<times> mem" where
  "mem_authenticate c w =
     (case filter (matches c) (accounts w) of
        [a] \<Rightarrow> (Inr (if password (fst a) = password c then Some (snd a) else None), w)
      | _ \<Rightarrow> (Inr None, w))"

text \<open>
  Modelled from the spec: the session class and the storage driver are not among the
  sources. A session is a persisted row of the session class that holds its token under
  the session-token key ("the token is purely a lookup key into the Session store").
\<close>

definition token_of :: "model \<Rightarrow> jsval option" where
  "token_of r = (if m_class r = SessionClass then key_of ''session_token'' r else None)"

definition has_token :: "string \<Rightarrow> model \<Rightarrow> bool" where
  "has_token tok r = (token_of r = Some (JStr tok))"

text \<open>
  Modelled from the spec: \<^verbatim>\<open>getFromToken\<close> of the absent session class "loads the
  session by token".
\<close>

definition mem_getFromToken :: "string \<Rightarrow> mem \<Rightarrow> (error + model option) \<times> mem" where
  "mem_getFromToken tok w = (Inr (List.find (has_token tok) (rows w)), w)"

text \<open>
  Modelled from the spec: \<open>destroy\<close> of the absent model classes deletes the row of the
  instance ("deletion is the revocation mechanism; there is no separate revoked but
  retained record").
\<close>

definition mem_destroy :: "model \<Rightarrow> mem \<Rightarrow> (error + model) \<times> mem" where
  "mem_destroy m w = (Inr m, w\<lparr>rows := filter (\<lambda>r. \<not> same_row m r) (rows w)\<rparr>)"

text \<open>
  Modelled from the spec: \<open>resolveToken\<close>, which is not among the sources, "loads the
  Session matching token where revocation timestamp is in the future relative to call
  time" and "returns no session if absent or past revocation".
\<close>

definition resolveToken :: "string \<Rightarrow> mem \<Rightarrow> model option" where
  "resolveToken tok w =
     (case List.find (has_token tok) (rows w) of
        None \<Rightarrow> None
      | Some r \<Rightarrow>
          (case key_of ''revoked_at'' r of
             Some (JNum t) \<Rightarrow> if now w < t then Some r else None
           | _ \<Rightarrow> None))"

text \<open>
  Modelled from the spec: the invariant of the session store, which the absent storage
  layer maintains: "exactly one live session per token value; token values are globally
  unique".
\<close>

definition unique_tokens :: "mem \<Rightarrow> bool" where
  "unique_tokens w =
     (\<forall>r \<in> set (rows w). \<forall>r' \<in> set (rows w).
        token_of r \<noteq> None \<and> token_of r' = token_of r \<longrightarrow> same_row r r')"

text \<open>
  The rest of the instance: \<open>save\<close> gives a new instance the next id and replaces the row
  of an instance that has one; a token is the text of the counter; a session is revoked an
  hour after it is issued; every class name is registered; filters are not interpreted;
  numbers beyond the safe integers are not printed.
\<close>

definition mem_save :: "model \<Rightarrow> mem \<Rightarrow> (error + model) \<times> mem" where
  "mem_save m w =
     (case m_id m of
        None \<Rightarrow>
          (let m' = m\<lparr>m_id := Some (next_id w)\<rparr>
           in (Inr m', w\<lparr>rows := rows w @ [m'], next_id := next_id w + 1\<rparr>))
      | Some i \<Rightarrow> (Inr m, w\<lparr>rows := filter (\<lambda>r. \<not> same_row m r) (rows w) @ [m]\<rparr>))"

definition mem_getById :: "class_ref \<Rightarrow> get_query \<Rightarrow> mem \<Rightarrow> (error + model option) \<times> mem" where
  "mem_getById c q w =
     (Inr (List.find (\<lambda>r. m_class r = c \<and> m_id r = Some (g_id q)) (rows w)), w)"

definition mem_find :: "class_ref \<Rightarrow> find_query \<Rightarrow> mem \<Rightarrow> (error + model list) \<times> mem" where
  "mem_find c q w =
     (Inr (take (nat (q_limit q)) (drop (nat (q_skip q)) (filter (\<lambda>r. m_class r = c) (rows w)))), w)"

definition mem_createSessionToken :: "user \<Rightarrow> mem \<Rightarrow> jsval \<times> mem" where
  "mem_createSessionToken u w = (JStr (''t'' @ nat_toString (issued w)), w\<lparr>issued := issued w + 1\<rparr>)"

definition mem_toPointerJSON :: "user \<Rightarrow> jsval" where
  "mem_toPointerJSON u = JObj [(''className'', JStr ''user''), (''id'', JNum (user_id u))]"

definition mem_env :: "mem env" where
  "mem_env =
     \<lparr>models_get = (\<lambda>cn. Inr (ModelClass cn)),
      parseSubqueries = Inr,
      new_ConstraintMap = (\<lambda>wh. Inr []),
      Defaults_Query_Sort = [JStr ''id''],
      Defaults_Query_Skip = 0,
      Defaults_Query_Limit = 100,
      authenticate = mem_authenticate,
      createSessionToken = mem_createSessionToken,
      getRevocationDate = (\<lambda>w. JNum (now w + 3600)),
      toPointerJSON = mem_toPointerJSON,
      userKey = ''user'',
      originKey = ''origin'',
      sessionTokenKey = ''session_token'',
      revokedAtKey = ''revoked_at'',
      getFromToken = mem_getFromToken,
      model_find = mem_find,
      model_getById = mem_getById,
      model_first = mem_getById,
      model_save = mem_save,
      model_destroy = mem_destroy,
      unsafe_number_text = (\<lambda>n. ''Infinity'')\<rparr>"

text \<open>Sample data: two accounts, one persisted session of the first, two callers.\<close>

definition alice :: user where
  "alice = \<lparr>user_id = 7, user_keys = [(''username'', JStr ''alice'')]\<rparr>"

definition bob :: user where
  "bob = \<lparr>user_id = 9, user_keys = [(''username'', JStr ''bob'')]\<rparr>"

definition anonymous :: metadata where
  "anonymous = \<lparr>isMaster = False, client = JStr ''web''\<rparr>"

definition master :: metadata where
  "master = \<lparr>isMaster = True, client = JStr ''console''\<rparr>"

definition session1 :: model where
  "session1 =
     \<lparr>m_class = SessionClass, m_metadata = anonymous, m_currentUser = None,
      m_keys = Some [(''user'', mem_toPointerJSON alice), (''origin'', JStr ''web''),
                     (''session_token'', JStr ''abc''), (''revoked_at'', JNum 5000)],
      m_id = Some 1, m_sdk = None\<rparr>"

definition profile7 :: model where
  "profile7 =
     \<lparr>m_class = UserClass, m_metadata = anonymous, m_currentUser = None,
      m_keys = Some [(''username'', JStr ''alice'')], m_id = Some 7, m_sdk = None\<rparr>"

definition mem0 :: mem where
  "mem0 =
     \<lparr>accounts =
        [(\<lparr>username = Some ''alice'', email = Some ''alice@example.org'', password = ''wonderland''\<rparr>, alice),
         (\<lparr>username = Some ''bob'', email = Some ''bob@example.org'', password = ''builder''\<rparr>, bob)],
      rows = [session1, profile7],
      next_id = 2,
      now = 1000,
      issued = 0\<rparr>"

definition world0 :: "mem world" where
  "world0 = \<lparr>db = mem0, trace = []\<rparr>"

section \<open>Properties\<close>

subsection \<open>The current user\<close>

text \<open>
  C7. \<^verbatim>\<open>me\<close> fails with \<^verbatim>\<open>InvalidSessionToken\<close> when no current user is resolved for
  the request, and otherwise returns the resolved identity itself, unmodified.
\<close>

theorem me_resolved:
  "(currentUser = None \<longrightarrow>
      UserController_me currentUser = Inl (Error InvalidSessionToken ''Session does not exist''))
   \<and> (\<forall>u. currentUser = Some u \<longrightarrow> UserController_me currentUser = Inr u)"
  by (simp add: UserController_me_def)

theorem me_resolved_witness:
  "UserController_me None = Inl (Error InvalidSessionToken ''Session does not exist'')
   \<and> UserController_me (Some alice) = Inr alice"
  using me_resolved [of None] me_resolved [of "Some alice"] by simp

subsection \<open>Errors at the response boundary\<close>

text \<open>
  A server configured with a custom response hands a \<^verbatim>\<open>DatabaseError\<close> to the next
  handler as it is, with the message of the storage layer.
\<close>

theorem Response_error_custom_counterexample:
  "Response_error True
     \<lparr>status = Some 500, code = Some DatabaseError, message = ''ER_NO_SUCH_TABLE: orders''\<rparr>
   = Next \<lparr>status = Some 500, code = Some DatabaseError, message = ''ER_NO_SUCH_TABLE: orders''\<rparr>"
  by (simp add: Response_error_def)

text \<open>
  C9 (amended). Without a custom response, the body written for an error carries the
  error's code unmodified (\<^verbatim>\<open>400\<close> when the error has none) and its message, except that
  the message of an error whose code is \<^verbatim>\<open>DatabaseError\<close> is replaced by
  \<^verbatim>\<open>Invalid query request\<close>; with a custom response the error is handed to the next
  handler unchanged and nothing is written.
\<close>

theorem Response_error_boundary:
  "Response_error customResponse err =
     (if customResponse then Next err
      else Sent (or_number (status err) 400)
             \<lparr>b_code = (case code err of None \<Rightarrow> CodeNumber 400 | Some c \<Rightarrow> CodeOf c),
              b_message = (if code err = Some DatabaseError then ''Invalid query request''
                           else message err)\<rparr>)"
  by (simp add: Response_error_def Let_def split: option.splits)

theorem Response_error_boundary_witness:
  "Response_error False
     \<lparr>status = Some 500, code = Some DatabaseError, message = ''ER_NO_SUCH_TABLE: orders''\<rparr>
   = Sent 500 \<lparr>b_code = CodeOf DatabaseError, b_message = ''Invalid query request''\<rparr>
   \<and> Response_error False
       \<lparr>status = None, code = Some InvalidCredentials, message = ''Invalid username/password''\<rparr>
     = Sent 400 \<lparr>b_code = CodeOf InvalidCredentials, b_message = ''Invalid username/password''\<rparr>
   \<and> Response_error False \<lparr>status = Some 0, code = None, message = ''boom''\<rparr>
     = Sent 400 \<lparr>b_code = CodeNumber 400, b_message = ''boom''\<rparr>"
  using
    Response_error_boundary [of False
      "\<lparr>status = Some 500, code = Some DatabaseError, message = ''ER_NO_SUCH_TABLE: orders''\<rparr>"]
    Response_error_boundary [of False
      "\<lparr>status = None, code = Some InvalidCredentials, message = ''Invalid username/password''\<rparr>"]
    Response_error_boundary [of False "\<lparr>status = Some 0, code = None, message = ''boom''\<rparr>"]
  by (simp add: or_number_def)

subsection \<open>Calls and traces\<close>

lemma call_eq:
  "call e f s = (fst (f (db s)), \<lparr>db = snd (f (db s)), trace = trace s @ [e]\<rparr>)"
  by (simp add: call_def split: prod.splits)

lemma db_emit: "db (emit e s) = db s"
  by (simp add: emit_def)

lemma trace_emit: "trace (emit e s) = trace s @ [e]"
  by (simp add: emit_def)

lemma trace_UserController_create:
  "trace (snd (UserController_create api Warp metadata currentUser keys s)) =
     trace s @ (if currentUser \<noteq> None then [Checked False]
                else [Checked True,
                      Save \<lparr>m_class = UserClass, m_metadata = metadata, m_currentUser = currentUser,
                             m_keys = Some keys, m_id = None, m_sdk = Warp\<rparr>])"
  by (simp add: UserController_create_def call_eq trace_emit bindSDK_def Let_def)

lemma trace_UserController_update:
  "trace (snd (UserController_update api Warp metadata currentUser keys t s)) =
     trace s @ (if \<not> isMaster metadata \<and> (\<forall>u. currentUser = Some u \<longrightarrow> user_id u \<noteq> t)
                then [Checked False]
                else [Checked True,
                      Save \<lparr>m_class = UserClass, m_metadata = metadata, m_currentUser = currentUser,
                             m_keys = Some keys, m_id = Some t, m_sdk = Warp\<rparr>])"
  by (cases currentUser)
     (auto simp: UserController_update_def call_eq trace_emit bindSDK_def Let_def)

lemma trace_UserController_destroy:
  "trace (snd (UserController_destroy api Warp metadata currentUser t s)) =
     trace s @ (if \<not> isMaster metadata \<and> (\<forall>u. currentUser = Some u \<longrightarrow> user_id u \<noteq> t)
                then [Checked False]
                else [Checked True,
                      Destroy \<lparr>m_class = UserClass, m_metadata = metadata, m_currentUser = currentUser,
                             m_keys = None, m_id = Some t, m_sdk = Warp\<rparr>])"
  by (cases currentUser)
     (auto simp: UserController_destroy_def call_eq trace_emit bindSDK_def Let_def)

subsection \<open>Writes and the check of the caller\<close>

text \<open>
  The route that creates an object of a named class, called by an anonymous caller without
  the master privilege, issues the \<open>save\<close> and evaluates no check of the caller before it.
\<close>

theorem classes_create_unchecked_counterexample:
  "trace (snd (classes_create mem_env anonymous None ''post'' [(''title'', JStr ''x'')] world0)) =
     [Save \<lparr>m_class = ModelClass ''post'', m_metadata = anonymous, m_currentUser = None,
             m_keys = Some [(''title'', JStr ''x'')], m_id = None, m_sdk = None\<rparr>]
   \<and> \<not> guarded False
        (trace (snd (classes_create mem_env anonymous None ''post'' [(''title'', JStr ''x'')] world0)))"
  by (simp add: classes_create_def mem_env_def call_eq world0_def Let_def)

text \<open>
  C1 (amended). The class routes evaluate no authorization check: whenever the class name
  resolves, \<open>create\<close>, \<open>update\<close> and \<open>destroy\<close> build the model from the request as it is
  and issue exactly one \<open>save\<close> or \<open>destroy\<close>, whoever the caller is. In the user
  controller the check of the caller is evaluated before the write: in the trace of
  \<open>create\<close>, \<open>update\<close> and \<open>destroy\<close> every write follows a check that let the caller through,
  and a denial is followed by no write.
\<close>

theorem writes_and_checks:
  "(\<forall>c. models_get api className = Inr c \<longrightarrow>
      trace (snd (classes_create api metadata currentUser className keys s)) =
        trace s @ [Save \<lparr>m_class = c, m_metadata = metadata, m_currentUser = currentUser,
                          m_keys = Some keys, m_id = None, m_sdk = None\<rparr>]
      \<and> trace (snd (classes_update api metadata currentUser className keys t s)) =
        trace s @ [Save \<lparr>m_class = c, m_metadata = metadata, m_currentUser = currentUser,
                          m_keys = Some keys, m_id = Some t, m_sdk = None\<rparr>]
      \<and> trace (snd (classes_destroy api metadata currentUser className t s)) =
        trace s @ [Destroy \<lparr>m_class = c, m_metadata = metadata, m_currentUser = currentUser,
                             m_keys = None, m_id = Some t, m_sdk = None\<rparr>])
   \<and> (\<exists>es. trace (snd (UserController_create api Warp metadata currentUser keys s)) = trace s @ es
           \<and> guarded False es)
   \<and> (\<exists>es. trace (snd (UserController_update api Warp metadata currentUser keys t s)) = trace s @ es
           \<and> guarded False es)
   \<and> (\<exists>es. trace (snd (UserController_destroy api Warp metadata currentUser t s)) = trace s @ es
           \<and> guarded False es)"
proof -
  have routes: "\<forall>c. models_get api className = Inr c \<longrightarrow>
      trace (snd (classes_create api metadata currentUser className keys s)) =
        trace s @ [Save \<lparr>m_class = c, m_metadata = metadata, m_currentUser = currentUser,
                          m_keys = Some keys, m_id = None, m_sdk = None\<rparr>]
      \<and> trace (snd (classes_update api metadata currentUser className keys t s)) =
        trace s @ [Save \<lparr>m_class = c, m_metadata = metadata, m_currentUser = currentUser,
                          m_keys = Some keys, m_id = Some t, m_sdk = None\<rparr>]
      \<and> trace (snd (classes_destroy api metadata currentUser className t s)) =
        trace s @ [Destroy \<lparr>m_class = c, m_metadata = metadata, m_currentUser = currentUser,
                             m_keys = None, m_id = Some t, m_sdk = None\<rparr>]"
    by (simp add: classes_create_def classes_update_def classes_destroy_def call_eq Let_def)
  have c: "\<exists>es. trace (snd (UserController_create api Warp metadata currentUser keys s)) = trace s @ es
           \<and> guarded False es"
    unfolding trace_UserController_create by simp
  have u: "\<exists>es. trace (snd (UserController_update api Warp metadata currentUser keys t s)) = trace s @ es
           \<and> guarded False es"
    unfolding trace_UserController_update by simp
  have d: "\<exists>es. trace (snd (UserController_destroy api Warp metadata currentUser t s)) = trace s @ es
           \<and> guarded False es"
    unfolding trace_UserController_destroy by simp
  from routes c u d show ?thesis by blast
qed


theorem writes_and_checks_witness:
  "trace (snd (classes_destroy mem_env anonymous None ''post'' 3 world0)) =
     [Destroy \<lparr>m_class = ModelClass ''post'', m_metadata = anonymous, m_currentUser = None,
                m_keys = None, m_id = Some 3, m_sdk = None\<rparr>]
   \<and> guarded False (trace (snd (UserController_destroy mem_env None anonymous (Some bob) 7 world0)))
   \<and> guarded False (trace (snd (UserController_update mem_env None master None [] 7 world0)))"
  using
    writes_and_checks [where api = mem_env and className = "''post''" and metadata = anonymous
      and currentUser = None and keys = "[]" and s = world0 and t = 3 and Warp = None]
    writes_and_checks [where api = mem_env and className = "''post''" and metadata = anonymous
      and currentUser = "Some bob" and keys = "[]" and s = world0 and t = 7 and Warp = None]
    writes_and_checks [where api = mem_env and className = "''post''" and metadata = master
      and currentUser = None and keys = "[]" and s = world0 and t = 7 and Warp = None]
  by (simp add: mem_env_def world0_def)

subsection \<open>Owner or master\<close>

text \<open>
  C3. Update and destroy of the user record with id \<open>t\<close>: a caller without the master
  privilege who has no current user, or whose current user has another id, gets
  \<^verbatim>\<open>ForbiddenOperation\<close> and the request ends after the check, with the external state as
  it was and no \<open>save\<close> or \<open>destroy\<close> issued; a caller whose id is \<open>t\<close>, or who holds the
  master privilege, passes the check and the \<open>save\<close> (the \<open>destroy\<close>) of the model built
  from the request is issued, its outcome being the outcome of the operation.
\<close>

theorem owner_or_master:
  "(\<not> isMaster metadata \<and> (\<forall>u. currentUser = Some u \<longrightarrow> user_id u \<noteq> t) \<longrightarrow>
      UserController_update api Warp metadata currentUser keys t s =
        (Inl (Error ForbdiddenOperation
               ''User details can only be edited by their owner or via master''),
         s\<lparr>trace := trace s @ [Checked False]\<rparr>)
      \<and> UserController_destroy api Warp metadata currentUser t s =
        (Inl (Error ForbdiddenOperation
               ''User details can only be destroyed by their owner or via master''),
         s\<lparr>trace := trace s @ [Checked False]\<rparr>))
   \<and> (isMaster metadata \<or> (\<exists>u. currentUser = Some u \<and> user_id u = t) \<longrightarrow>
      (let m = \<lparr>m_class = UserClass, m_metadata = metadata, m_currentUser = currentUser,
                m_keys = Some keys, m_id = Some t, m_sdk = Warp\<rparr>
       in UserController_update api Warp metadata currentUser keys t s =
            (fst (model_save api m (db s)),
             \<lparr>db = snd (model_save api m (db s)), trace = trace s @ [Checked True, Save m]\<rparr>))
      \<and> (let m = \<lparr>m_class = UserClass, m_metadata = metadata, m_currentUser = currentUser,
                m_keys = None, m_id = Some t, m_sdk = Warp\<rparr>
       in UserController_destroy api Warp metadata currentUser t s =
            (fst (model_destroy api m (db s)),
             \<lparr>db = snd (model_destroy api m (db s)),
              trace = trace s @ [Checked True, Destroy m]\<rparr>)))"
  by (cases currentUser)
     (auto simp: UserController_update_def UserController_destroy_def call_eq db_emit trace_emit
        bindSDK_def Let_def emit_def)

theorem owner_or_master_witness:
  "UserController_update mem_env None anonymous (Some bob) [(''email'', JStr ''b@example.org'')] 7 world0 =
     (Inl (Error ForbdiddenOperation
            ''User details can only be edited by their owner or via master''),
      world0\<lparr>trace := [Checked False]\<rparr>)
   \<and> UserController_destroy mem_env None anonymous None 7 world0 =
     (Inl (Error ForbdiddenOperation
            ''User details can only be destroyed by their owner or via master''),
      world0\<lparr>trace := [Checked False]\<rparr>)
   \<and> trace (snd (UserController_update mem_env None anonymous (Some alice)
                    [(''email'', JStr ''a@example.org'')] 7 world0)) =
     [Checked True,
      Save \<lparr>m_class = UserClass, m_metadata = anonymous, m_currentUser = Some alice,
             m_keys = Some [(''email'', JStr ''a@example.org'')], m_id = Some 7, m_sdk = None\<rparr>]
   \<and> trace (snd (UserController_destroy mem_env None master (Some bob) 7 world0)) =
     [Checked True,
      Destroy \<lparr>m_class = UserClass, m_metadata = master, m_currentUser = Some bob,
                m_keys = None, m_id = Some 7, m_sdk = None\<rparr>]"
  using
    owner_or_master [where metadata = anonymous and currentUser = "Some bob" and t = 7
      and api = mem_env and Warp = None and keys = "[(''email'', JStr ''b@example.org'')]"
      and s = world0]
    owner_or_master [where metadata = anonymous and currentUser = None and t = 7
      and api = mem_env and Warp = None and keys = "[]" and s = world0]
    owner_or_master [where metadata = anonymous and currentUser = "Some alice" and t = 7
      and api = mem_env and Warp = None and keys = "[(''email'', JStr ''a@example.org'')]"
      and s = world0]
    owner_or_master [where metadata = master and currentUser = "Some bob" and t = 7
      and api = mem_env and Warp = None and keys = "[]" and s = world0]
  by (simp add: world0_def alice_def bob_def anonymous_def master_def Let_def)

subsection \<open>Callers with an active session\<close>

text \<open>
  C4. When a current user is set, \<open>logIn\<close> and \<open>create\<close> fail with
  \<^verbatim>\<open>ForbiddenOperation\<close>; the request ends after the check: nothing is authenticated, no
  token is drawn, nothing is saved, and the external state is as it was.
\<close>

theorem no_session_for_authenticated:
  "currentUser = Some u \<Longrightarrow>
     UserController_logIn api Warp metadata currentUser username' email' password' s =
       (Inl (Error ForbdiddenOperation ''Cannot log in using an active session. Please log out.''),
        s\<lparr>trace := trace s @ [Checked False]\<rparr>)
     \<and> UserController_create api Warp metadata currentUser keys s =
       (Inl (Error ForbdiddenOperation
              ''Users cannot be created using an active session. Please log out.''),
        s\<lparr>trace := trace s @ [Checked False]\<rparr>)"
  by (simp add: UserController_logIn_def UserController_create_def emit_def)

theorem no_session_for_authenticated_witness:
  "UserController_logIn mem_env None anonymous (Some alice) (Some ''bob'') None ''builder'' world0 =
     (Inl (Error ForbdiddenOperation ''Cannot log in using an active session. Please log out.''),
      \<lparr>db = mem0, trace = [Checked False]\<rparr>)
   \<and> UserController_create mem_env None anonymous (Some alice) [(''username'', JStr ''carol'')] world0 =
     (Inl (Error ForbdiddenOperation
            ''Users cannot be created using an active session. Please log out.''),
      \<lparr>db = mem0, trace = [Checked False]\<rparr>)"
  using
    no_session_for_authenticated [where currentUser = "Some alice" and u = alice
      and api = mem_env and Warp = None and metadata = anonymous and username' = "Some ''bob''"
      and email' = None and password' = "''builder''" and s = world0
      and keys = "[(''username'', JStr ''carol'')]"]
  by (simp add: world0_def)

subsection \<open>Failed and successful logins\<close>

text \<open>
  C2. Two login attempts that fail authentication (\<open>authenticate\<close> resolves to something
  that is not a user, for whatever reason: an identifier that does not exist, a wrong
  password) raise the same error, \<^verbatim>\<open>InvalidCredentials\<close> with the message
  \<^verbatim>\<open>Invalid username/password\<close>.
\<close>

theorem logIn_invalid_credentials:
  assumes "authenticate api \<lparr>username = u1, email = e1, password = p1\<rparr> (db s) = (Inr None, w1)"
    and "authenticate api \<lparr>username = u2, email = e2, password = p2\<rparr> (db s) = (Inr None, w2)"
  shows "fst (UserController_logIn api Warp metadata None u1 e1 p1 s) =
           Inl (Error InvalidCredentials ''Invalid username/password'')
         \<and> fst (UserController_logIn api Warp metadata None u2 e2 p2 s) =
           fst (UserController_logIn api Warp metadata None u1 e1 p1 s)"
  using assms by (simp add: UserController_logIn_def call_eq db_emit Let_def)

theorem logIn_invalid_credentials_witness:
  "fst (UserController_logIn mem_env None anonymous None (Some ''carol'') None ''wonderland'' world0) =
     Inl (Error InvalidCredentials ''Invalid username/password'')
   \<and> fst (UserController_logIn mem_env None anonymous None (Some ''alice'') None ''rabbit'' world0) =
     fst (UserController_logIn mem_env None anonymous None (Some ''carol'') None ''wonderland'' world0)"
proof -
  have a: "authenticate mem_env \<lparr>username = Some ''carol'', email = None, password = ''wonderland''\<rparr>
             (db world0) = (Inr None, mem0)"
    by (simp add: mem_env_def mem_authenticate_def matches_def world0_def mem0_def)
  have b: "authenticate mem_env \<lparr>username = Some ''alice'', email = None, password = ''rabbit''\<rparr>
             (db world0) = (Inr None, mem0)"
    by (simp add: mem_env_def mem_authenticate_def matches_def world0_def mem0_def)
  show ?thesis using logIn_invalid_credentials [OF a b] by simp
qed


text \<open>
  C5. A login that authenticates a user builds a session of the session class whose keys
  are exactly the user's pointer under the user key, the client of the request's metadata
  under the origin key, the token drawn for that user under the session-token key and the
  date given by \<open>getRevocationDate\<close> under the revoked-at key (the four key names being
  different); it binds the SDK, saves that session, and the outcome of the \<open>save\<close> is what
  \<open>logIn\<close> returns.
\<close>

theorem logIn_session:
  assumes "authenticate api \<lparr>username = un, email = em, password = pw\<rparr> (db s) = (Inr (Some u), w1)"
    and "createSessionToken api u w1 = (token, w2)"
    and "distinct [userKey api, originKey api, sessionTokenKey api, revokedAtKey api]"
  shows "let session =
               \<lparr>m_class = SessionClass, m_metadata = metadata, m_currentUser = None,
                m_keys = Some [(userKey api, toPointerJSON api u),
                               (originKey api, client metadata),
                               (sessionTokenKey api, token),
                               (revokedAtKey api, getRevocationDate api w2)],
                m_id = None, m_sdk = Warp\<rparr>
         in UserController_logIn api Warp metadata None un em pw s =
              (fst (model_save api session w2),
               \<lparr>db = snd (model_save api session w2),
                trace = trace s @
                  [Checked True, Authenticate \<lparr>username = un, email = em, password = pw\<rparr>,
                   CreateSessionToken u, GetRevocationDate, Save session]\<rparr>)"
  using assms
  by (simp add: UserController_logIn_def call_eq db_emit trace_emit Let_def bindSDK_def)

theorem logIn_session_witness:
  "UserController_logIn mem_env (Some (SDK ''js'')) anonymous None None (Some ''bob@example.org'')
       ''builder'' world0 =
     (let session = \<lparr>m_class = SessionClass, m_metadata = anonymous, m_currentUser = None,
                      m_keys = Some [(''user'', JObj [(''className'', JStr ''user''), (''id'', JNum 9)]),
                                     (''origin'', JStr ''web''),
                                     (''session_token'', JStr ''t0''),
                                     (''revoked_at'', JNum 4600)],
                      m_id = None, m_sdk = Some (SDK ''js'')\<rparr>
      in (Inr (session\<lparr>m_id := Some 2\<rparr>),
          \<lparr>db = mem0\<lparr>rows := [session1, profile7, session\<lparr>m_id := Some 2\<rparr>], next_id := 3, issued := 1\<rparr>,
           trace = [Checked True,
                    Authenticate \<lparr>username = None, email = Some ''bob@example.org'', password = ''builder''\<rparr>,
                    CreateSessionToken bob, GetRevocationDate, Save session]\<rparr>))"
proof -
  have a: "authenticate mem_env \<lparr>username = None, email = Some ''bob@example.org'', password = ''builder''\<rparr>
             (db world0) = (Inr (Some bob), mem0)"
    by (simp add: mem_env_def mem_authenticate_def matches_def world0_def mem0_def)
  have t: "createSessionToken mem_env bob mem0 = (JStr ''t0'', mem0\<lparr>issued := 1\<rparr>)"
    by (simp add: mem_env_def mem_createSessionToken_def mem0_def digit_char_def)
  have d: "distinct [userKey mem_env, originKey mem_env, sessionTokenKey mem_env, revokedAtKey mem_env]"
    by (simp add: mem_env_def)
  show ?thesis
    using logIn_session [OF a t d, where metadata = anonymous and Warp = "Some (SDK ''js'')"]
    by (simp add: Let_def mem_env_def mem_save_def mem0_def world0_def anonymous_def bob_def
        mem_toPointerJSON_def)
qed

subsection \<open>Logging out\<close>

lemma same_row_bindSDK: "same_row (bindSDK W m) r = same_row m r"
  by (simp add: same_row_def bindSDK_def)

lemma no_token_after_destroy:
  assumes u: "unique_tokens w"
    and f: "List.find (has_token tok) (rows w) = Some m"
  shows "List.find (has_token tok) (filter (\<lambda>r. \<not> same_row (bindSDK W m) r) (rows w)) = None"
proof -
  from f have m: "m \<in> set (rows w)" and tm: "has_token tok m"
    by (auto simp: find_Some_iff)
  have "\<not> has_token tok r" if r: "r \<in> set (rows w)" and n: "\<not> same_row m r" for r
  proof
    assume "has_token tok r"
    with tm have "token_of m \<noteq> None" and "token_of r = token_of m"
      by (simp_all add: has_token_def)
    with u m r have "same_row m r"
      unfolding unique_tokens_def by blast
    with n show False by simp
  qed
  then show ?thesis
    by (auto simp: find_None_iff same_row_bindSDK)
qed

text \<open>
  C6. \<open>logOut\<close> with a token that no session matches fails with
  \<^verbatim>\<open>InvalidSessionToken\<close> after the lookup, and no \<open>destroy\<close> is issued; with a token
  that a session matches, it issues the \<open>destroy\<close> of that session and returns its outcome.
  On the session store, where tokens identify sessions, the session is returned and a
  later resolution of the same token finds no session.
\<close>

theorem logOut_session:
  "(\<forall>w1. getFromToken api sessionToken (db s) = (Inr None, w1) \<longrightarrow>
      UserController_logOut api Warp sessionToken s =
        (Inl (Error InvalidSessionToken ''Session does not exist''),
         \<lparr>db = w1, trace = trace s @ [GetFromToken sessionToken]\<rparr>))
   \<and> (\<forall>session w1. getFromToken api sessionToken (db s) = (Inr (Some session), w1) \<longrightarrow>
      UserController_logOut api Warp sessionToken s =
        (fst (model_destroy api (bindSDK Warp session) w1),
         \<lparr>db = snd (model_destroy api (bindSDK Warp session) w1),
          trace = trace s @ [GetFromToken sessionToken, Destroy (bindSDK Warp session)]\<rparr>))
   \<and> (\<forall>session m. unique_tokens m \<and> List.find (has_token sessionToken) (rows m) = Some session \<longrightarrow>
      fst (UserController_logOut mem_env Warp sessionToken \<lparr>db = m, trace = es\<rparr>) =
        Inr (bindSDK Warp session)
      \<and> resolveToken sessionToken
          (db (snd (UserController_logOut mem_env Warp sessionToken \<lparr>db = m, trace = es\<rparr>))) = None
      \<and> fst (mem_getFromToken sessionToken
          (db (snd (UserController_logOut mem_env Warp sessionToken \<lparr>db = m, trace = es\<rparr>)))) = Inr None)"
proof -
  have a: "\<forall>w1. getFromToken api sessionToken (db s) = (Inr None, w1) \<longrightarrow>
      UserController_logOut api Warp sessionToken s =
        (Inl (Error InvalidSessionToken ''Session does not exist''),
         \<lparr>db = w1, trace = trace s @ [GetFromToken sessionToken]\<rparr>)"
    by (simp add: UserController_logOut_def call_eq)
  have b: "\<forall>session w1. getFromToken api sessionToken (db s) = (Inr (Some session), w1) \<longrightarrow>
      UserController_logOut api Warp sessionToken s =
        (fst (model_destroy api (bindSDK Warp session) w1),
         \<lparr>db = snd (model_destroy api (bindSDK Warp session) w1),
          trace = trace s @ [GetFromToken sessionToken, Destroy (bindSDK Warp session)]\<rparr>)"
    by (simp add: UserController_logOut_def call_eq Let_def)
  have c: "fst (UserController_logOut mem_env Warp sessionToken \<lparr>db = m, trace = es\<rparr>) =
        Inr (bindSDK Warp session)
      \<and> resolveToken sessionToken
          (db (snd (UserController_logOut mem_env Warp sessionToken \<lparr>db = m, trace = es\<rparr>))) = None
      \<and> fst (mem_getFromToken sessionToken
          (db (snd (UserController_logOut mem_env Warp sessionToken \<lparr>db = m, trace = es\<rparr>)))) = Inr None"
    if u: "unique_tokens m" and f: "List.find (has_token sessionToken) (rows m) = Some session"
    for session m
    using f no_token_after_destroy [OF u f, of Warp]
    by (simp add: UserController_logOut_def call_eq Let_def mem_env_def mem_getFromToken_def
        mem_destroy_def resolveToken_def)
  from a b c show ?thesis by blast
qed

theorem logOut_session_witness:
  "UserController_logOut mem_env None ''nope'' world0 =
     (Inl (Error InvalidSessionToken ''Session does not exist''),
      \<lparr>db = mem0, trace = [GetFromToken ''nope'']\<rparr>)
   \<and> UserController_logOut mem_env None ''abc'' world0 =
     (Inr session1, \<lparr>db = mem0\<lparr>rows := [profile7]\<rparr>, trace = [GetFromToken ''abc'', Destroy session1]\<rparr>)
   \<and> resolveToken ''abc'' mem0 = Some session1
   \<and> resolveToken ''abc'' (db (snd (UserController_logOut mem_env None ''abc'' world0))) = None"
proof -
  have f0: "getFromToken mem_env ''nope'' (db world0) = (Inr None, mem0)"
    by (simp add: mem_env_def mem_getFromToken_def world0_def mem0_def has_token_def token_of_def
        key_of_def session1_def profile7_def)
  have f1: "List.find (has_token ''abc'') (rows mem0) = Some session1"
    by (simp add: mem0_def has_token_def token_of_def key_of_def session1_def)
  have g1: "getFromToken mem_env ''abc'' (db world0) = (Inr (Some session1), mem0)"
    using f1 by (simp add: mem_env_def mem_getFromToken_def world0_def)
  have u: "unique_tokens mem0"
    by (simp add: unique_tokens_def mem0_def token_of_def key_of_def same_row_def session1_def
        profile7_def)
  have r: "resolveToken ''abc'' mem0 = Some session1"
    using f1 by (simp add: resolveToken_def) (simp add: key_of_def session1_def mem0_def)
  have b: "bindSDK None session1 = session1"
    by (simp add: bindSDK_def session1_def)
  have dd: "model_destroy mem_env session1 mem0 = (Inr session1, mem0\<lparr>rows := [profile7]\<rparr>)"
    by (simp add: mem_env_def mem_destroy_def mem0_def same_row_def session1_def profile7_def)
  have gone: "resolveToken ''abc'' (db (snd (UserController_logOut mem_env None ''abc'' world0))) = None"
    using
      logOut_session [where api = mem_env and sessionToken = "''abc''" and s = world0
        and Warp = None and es = "[]"]
      u f1 unfolding world0_def by blast
  show ?thesis
    using
      logOut_session [where api = mem_env and sessionToken = "''nope''" and s = world0
        and Warp = None and es = "[]"]
      logOut_session [where api = mem_env and sessionToken = "''abc''" and s = world0
        and Warp = None and es = "[]"]
      f0 g1 r b dd gone
    by (simp add: world0_def)
qed

subsection \<open>Pagination defaults\<close>

text \<open>
  C8. For every find request whose filter parses, with \<open>limit\<close> a positive integer when
  it is supplied (the domain of a query descriptor) and \<^verbatim>\<open>Defaults.Query.Skip\<close> being
  \<open>0\<close>, the query that \<open>find\<close> hands to the model class carries the \<open>skip\<close> and \<open>limit\<close>
  supplied when they are supplied, and carries the defaults, \<open>0\<close> and
  \<^verbatim>\<open>Defaults.Query.Limit\<close>, exactly for a parameter that is omitted; this holds for the
  user controller and for the class routes.
\<close>

theorem find_skip_limit:
  assumes "parseSubqueries api where' = Inr where''"
    and "new_ConstraintMap api where'' = Inr cm"
    and "Defaults_Query_Skip api = 0"
    and "\<forall>n. limit = Some n \<longrightarrow> 0 < n"
  shows "(\<exists>q. trace (snd (UserController_find api select include where' sort' skip limit s)) =
             trace s @ [Find UserClass q]
           \<and> q_skip q = (case skip of None \<Rightarrow> 0 | Some n \<Rightarrow> n)
           \<and> q_limit q = (case limit of None \<Rightarrow> Defaults_Query_Limit api | Some n \<Rightarrow> n))
         \<and> (\<forall>c. models_get api className = Inr c \<longrightarrow>
          (\<exists>q. trace (snd (classes_find api className select include where' sort' skip limit s)) =
             trace s @ [Find c q]
           \<and> q_skip q = (case skip of None \<Rightarrow> 0 | Some n \<Rightarrow> n)
           \<and> q_limit q = (case limit of None \<Rightarrow> Defaults_Query_Limit api | Some n \<Rightarrow> n)))"
proof -
  have sk: "or_number skip (Defaults_Query_Skip api) = (case skip of None \<Rightarrow> 0 | Some n \<Rightarrow> n)"
    using assms(3) by (simp add: or_number_def split: option.splits)
  have li: "or_number limit (Defaults_Query_Limit api) =
              (case limit of None \<Rightarrow> Defaults_Query_Limit api | Some n \<Rightarrow> n)"
    using assms(4) by (auto simp: or_number_def split: option.splits)
  show ?thesis
    using assms(1,2) sk li
    by (simp add: UserController_find_def classes_find_def call_eq Let_def)
qed

theorem find_skip_limit_witness:
  "trace (snd (UserController_find mem_env None None None None None None world0)) =
     [Find UserClass \<lparr>q_select = None, q_include = None, q_where = [], q_sort = [JStr ''id''],
                       q_skip = 0, q_limit = 100\<rparr>]
   \<and> trace (snd (classes_find mem_env ''post'' None None None None (Some 5) None world0)) =
     [Find (ModelClass ''post'')
        \<lparr>q_select = None, q_include = None, q_where = [], q_sort = [JStr ''id''],
         q_skip = 5, q_limit = 100\<rparr>]
   \<and> trace (snd (classes_find mem_env ''post'' None None None None (Some 0) (Some 10) world0)) =
     [Find (ModelClass ''post'')
        \<lparr>q_select = None, q_include = None, q_where = [], q_sort = [JStr ''id''],
         q_skip = 0, q_limit = 10\<rparr>]"
proof -
  have p: "parseSubqueries mem_env None = Inr None"
    by (simp add: mem_env_def)
  have c: "new_ConstraintMap mem_env None = Inr []"
    by (simp add: mem_env_def)
  have z: "Defaults_Query_Skip mem_env = 0"
    by (simp add: mem_env_def)
  have l0: "\<forall>n. (None :: int option) = Some n \<longrightarrow> 0 < n"
    by simp
  have l10: "\<forall>n. Some (10 :: int) = Some n \<longrightarrow> 0 < n"
    by simp
  show ?thesis
    using find_skip_limit [OF p c z l0, where skip = None and s = world0
        and className = "''post''" and sort' = None and select = None]
      find_skip_limit [OF p c z l0, where skip = "Some 5" and s = world0
        and className = "''post''" and sort' = None and select = None]
      find_skip_limit [OF p c z l10, where skip = "Some 0" and s = world0
        and className = "''post''" and sort' = None and select = None]
    by (simp add: UserController_find_def classes_find_def mem_env_def call_eq world0_def
        or_number_def or_array_def Let_def)
qed

subsection \<open>A user that is not found\<close>

lemma digit_cases:
  "d < (10::nat) \<Longrightarrow> d = 0 \<or> d = 1 \<or> d = 2 \<or> d = 3 \<or> d = 4 \<or> d = 5 \<or> d = 6 \<or> d = 7 \<or> d = 8 \<or> d = 9"
  by arith

lemma digit_value_digit_char: "d < 10 \<Longrightarrow> digit_value (digit_char d) = d"
  using digit_cases [of d] by (auto simp: digit_value_def digit_char_def)

lemma digit_char_not_minus: "d < 10 \<Longrightarrow> digit_char d \<noteq> CHR ''-''"
  using digit_cases [of d] by (auto simp: digit_char_def)

lemma decimal_value_snoc: "decimal_value (cs @ [c]) = 10 * decimal_value cs + digit_value c"
  by (simp add: decimal_value_def)

lemma nat_toString_small: "n < 10 \<Longrightarrow> nat_toString n = [digit_char n]"
  by (subst nat_toString.simps) simp

lemma nat_toString_large:
  "\<not> n < 10 \<Longrightarrow> nat_toString n = nat_toString (n div 10) @ [digit_char (n mod 10)]"
  by (subst nat_toString.simps) (simp del: nat_toString.simps)

lemma decimal_value_nat_toString: "decimal_value (nat_toString n) = n"
proof (induction n rule: nat_toString.induct)
  case (1 n)
  show ?case
  proof (cases "n < 10")
    case True
    then show ?thesis
      by (simp del: nat_toString.simps add: nat_toString_small decimal_value_def digit_value_digit_char)
  next
    case False
    with "1" have "decimal_value (nat_toString (n div 10)) = n div 10"
      by (simp del: nat_toString.simps)
    with False show ?thesis
      by (simp del: nat_toString.simps add: nat_toString_large decimal_value_snoc digit_value_digit_char)
  qed
qed

lemma nat_toString_first: "\<exists>c cs. nat_toString n = c # cs \<and> c \<noteq> CHR ''-''"
proof (induction n rule: nat_toString.induct)
  case (1 n)
  show ?case
  proof (cases "n < 10")
    case True
    then show ?thesis
      by (simp del: nat_toString.simps add: nat_toString_small digit_char_not_minus)
  next
    case False
    with "1" obtain c cs where "nat_toString (n div 10) = c # cs" and "c \<noteq> CHR ''-''"
      by (auto simp del: nat_toString.simps)
    with False show ?thesis
      by (simp del: nat_toString.simps add: nat_toString_large)
  qed
qed

lemma int_of_decimal_int_toString: "int_of_decimal (int_toString i) = i"
proof (cases "i < 0")
  case True
  then show ?thesis
    by (simp del: nat_toString.simps
        add: int_of_decimal_def int_toString_def decimal_value_nat_toString)
next
  case False
  obtain c cs where "nat_toString (nat i) = c # cs" and "c \<noteq> CHR ''-''"
    using nat_toString_first by blast
  moreover have "decimal_value (nat_toString (nat i)) = nat i"
    by (rule decimal_value_nat_toString)
  ultimately show ?thesis
    using False by (simp del: nat_toString.simps add: int_of_decimal_def int_toString_def)
qed

text \<open>
  C10. \<open>get\<close> of a user id (a safe integer) for which the model class returns no record
  fails with an error whose code is \<^verbatim>\<open>ForbdiddenOperation\<close> and whose message is
  \<^verbatim>\<open>User with id `\<close>, the decimal text of the id, \<^verbatim>\<open>` not found\<close>: the text between
  the backquotes reads back as the id, so the message names it. A record that is found is
  returned as it is.
\<close>

theorem get_not_found:
  assumes "model_getById api UserClass
             \<lparr>g_select = or_array select [], g_include = or_array include [], g_id = i\<rparr> (db s) = (r, w)"
    and "\<bar>i\<bar> \<le> MAX_SAFE_INTEGER"
  shows "(r = Inr None \<longrightarrow>
            (\<exists>text. fst (UserController_get api i select include s) =
                      Inl (Error ForbdiddenOperation (''User with id `'' @ text @ ''` not found''))
                   \<and> text = int_toString i \<and> int_of_decimal text = i))
         \<and> (\<forall>m. r = Inr (Some m) \<longrightarrow> fst (UserController_get api i select include s) = Inr m)"
  using assms
  by (simp del: nat_toString.simps
      add: UserController_get_def call_eq Let_def template_number_def
      int_of_decimal_int_toString)

theorem get_not_found_witness:
  "fst (UserController_get mem_env 42 None None world0) =
     Inl (Error ForbdiddenOperation ''User with id `42` not found'')
   \<and> fst (UserController_get mem_env (- 1207) None None world0) =
     Inl (Error ForbdiddenOperation ''User with id `-1207` not found'')
   \<and> fst (UserController_get mem_env 9007199254740991 None None world0) =
     Inl (Error ForbdiddenOperation ''User with id `9007199254740991` not found'')
   \<and> int_of_decimal ''-1207'' = - 1207
   \<and> fst (UserController_get mem_env 7 None (Some [''friends'']) world0) = Inr profile7"
proof -
  have g: "model_getById mem_env UserClass
             \<lparr>g_select = or_array None [], g_include = or_array None [], g_id = i\<rparr> (db world0) =
           (Inr None, mem0)" if "i \<noteq> 7" for i
    using that
    by (simp add: mem_env_def mem_getById_def world0_def mem0_def session1_def profile7_def)
  have g7: "model_getById mem_env UserClass
             \<lparr>g_select = or_array None [], g_include = or_array (Some [''friends'']) [], g_id = 7\<rparr>
             (db world0) = (Inr (Some profile7), mem0)"
    by (simp add: mem_env_def mem_getById_def world0_def mem0_def session1_def profile7_def)
  have t42: "int_toString 42 = ''42''"
    by (simp add: int_toString_def digit_char_def)
  have t1207: "int_toString (- 1207) = ''-1207''"
    by (simp add: int_toString_def digit_char_def)
  have tmax: "int_toString 9007199254740991 = ''9007199254740991''"
    by (simp add: int_toString_def digit_char_def)
  have s42: "\<bar>42\<bar> \<le> MAX_SAFE_INTEGER" and s1207: "\<bar>- 1207\<bar> \<le> MAX_SAFE_INTEGER"
    and smax: "\<bar>9007199254740991\<bar> \<le> MAX_SAFE_INTEGER" and s7: "\<bar>7\<bar> \<le> MAX_SAFE_INTEGER"
    by (simp_all add: MAX_SAFE_INTEGER_def)
  have a: "fst (UserController_get mem_env 42 None None world0) =
     Inl (Error ForbdiddenOperation ''User with id `42` not found'')"
    using get_not_found [OF g [of 42] s42] t42 by simp
  have b: "fst (UserController_get mem_env (- 1207) None None world0) =
     Inl (Error ForbdiddenOperation ''User with id `-1207` not found'')
     \<and> int_of_decimal ''-1207'' = - 1207"
    using get_not_found [OF g [of "- 1207"] s1207] t1207 by simp
  have c: "fst (UserController_get mem_env 9007199254740991 None None world0) =
     Inl (Error ForbdiddenOperation ''User with id `9007199254740991` not found'')"
    using get_not_found [OF g [of 9007199254740991] smax] tmax by simp
  have d: "fst (UserController_get mem_env 7 None (Some [''friends'']) world0) = Inr profile7"
    using get_not_found [OF g7 s7] by simp
  from a b c d show ?thesis by simp
qed

end
